theory Spec2Isabelle
  imports Main "HOL-Library.Monad_Syntax" "HOL-Library.Product_Lexorder"
begin

section \<open>Characters and strings\<close>

text \<open>
  Python strings are modelled as HOL strings whose characters are read as the code points
  0 to 255. On this range the character classes of Python 3 are the following:
  \<^item> \<^verbatim>\<open>\d\<close> of a \<^verbatim>\<open>str\<close> pattern: the ten ASCII digits;
  \<^item> \<^verbatim>\<open>\s\<close>, \<^verbatim>\<open>str.strip()\<close> and \<^verbatim>\<open>str.split()\<close>: code points 9 to 13, 28 to 32,
    133 and 160;
  \<^item> \<^verbatim>\<open>\w\<close>: the alphanumeric code points and the underscore;
  \<^item> under \<^verbatim>\<open>re.IGNORECASE\<close> a lower-case ASCII letter of a pattern matches itself and
    its upper-case ASCII form, and nothing else below 256.
\<close>

definition code :: "char \<Rightarrow> nat" where
  "code c = of_char c"

definition between :: "nat \<Rightarrow> nat \<Rightarrow> char \<Rightarrow> bool" where
  "between lo hi c = (lo \<le> code c \<and> code c \<le> hi)"

definition is_digit :: "char \<Rightarrow> bool" where
  "is_digit c = between 48 57 c"

definition is_space :: "char \<Rightarrow> bool" where
  "is_space c = (between 9 13 c \<or> between 28 32 c \<or> code c = 133 \<or> code c = 160)"

definition is_word :: "char \<Rightarrow> bool" where
  "is_word c =
     (between 48 57 c \<or> between 65 90 c \<or> code c = 95 \<or> between 97 122 c \<or>
      code c = 170 \<or> between 178 179 c \<or> code c = 181 \<or> between 185 186 c \<or>
      between 188 190 c \<or> between 192 214 c \<or> between 216 246 c \<or> between 248 255 c)"

definition ascii_lower :: "char \<Rightarrow> char" where
  "ascii_lower c = (if between 65 90 c then char_of (code c + 32) else c)"

text \<open>\<^verbatim>\<open>s.strip()\<close>\<close>

definition strip :: "string \<Rightarrow> string" where
  "strip s = rev (dropWhile is_space (rev (dropWhile is_space s)))"

text \<open>\<^verbatim>\<open>s.startswith(p)\<close>\<close>

definition startswith :: "string \<Rightarrow> string \<Rightarrow> bool" where
  "startswith s p = (take (length p) s = p)"

section \<open>Exceptions\<close>

text \<open>
  The exceptions of \<^verbatim>\<open>exceptions.py\<close> that the modelled code raises, and the built-in
  ones it can meet; each carries its message. All of them derive from \<^verbatim>\<open>Exception\<close>.
  The messages of the built-in exceptions are abbreviated.
\<close>

datatype error =
    ParsingException string
  | ValidationException string
  | ValueError string
  | IndexError string
  | AttributeError string

fun error_message :: "error \<Rightarrow> string" where
  "error_message (ParsingException m) = m"
| "error_message (ValidationException m) = m"
| "error_message (ValueError m) = m"
| "error_message (IndexError m) = m"
| "error_message (AttributeError m) = m"

section \<open>Integers and their decimal text\<close>

definition digits_value :: "string \<Rightarrow> nat" where
  "digits_value s = foldl (\<lambda>n c. 10 * n + (code c - 48)) 0 s"

text \<open>
  \<^verbatim>\<open>int(s)\<close>: white space around the digits is ignored. Python also accepts a sign and
  single underscores between digits; the code only passes captures of \<^verbatim>\<open>\d{n}\<close>, so
  these forms are not modelled and are reported as \<open>ValueError\<close> like any other text.
\<close>

definition py_int :: "string \<Rightarrow> error + int" where
  "py_int s =
     (let t = strip s in
      if t \<noteq> [] \<and> list_all is_digit t then Inr (int (digits_value t))
      else Inl (ValueError (''invalid literal for int() with base 10: '' @ s)))"

fun str_nat :: "nat \<Rightarrow> string" where
  "str_nat n =
     (if n < 10 then [char_of (48 + n)]
      else str_nat (n div 10) @ [char_of (48 + n mod 10)])"

declare str_nat.simps [simp del]

text \<open>\<^verbatim>\<open>str(i)\<close> of an integer\<close>

definition py_str :: "int \<Rightarrow> string" where
  "py_str i = (if i < 0 then CHR ''-'' # str_nat (nat (- i)) else str_nat (nat i))"

section \<open>Regular expressions\<close>

text \<open>
  A pattern is a function from the text at the current position to the list of ways it
  can match there, in the order in which the backtracking matcher of \<^verbatim>\<open>re\<close> tries
  them; each way gives what was captured and the text that remains. The first element of
  the list is the match that \<^verbatim>\<open>re\<close> reports.
\<close>

text \<open>\<^verbatim>\<open>\d{n}\<close>, capturing\<close>

fun rx_digits :: "nat \<Rightarrow> string \<Rightarrow> (string \<times> string) list" where
  "rx_digits 0 s = [([], s)]"
| "rx_digits (Suc n) [] = []"
| "rx_digits (Suc n) (c # cs) =
     (if is_digit c then map (\<lambda>(ds, r). (c # ds, r)) (rx_digits n cs) else [])"

text \<open>a literal character\<close>

definition rx_lit :: "char \<Rightarrow> string \<Rightarrow> string list" where
  "rx_lit a s = (case s of [] \<Rightarrow> [] | c # cs \<Rightarrow> if c = a then [cs] else [])"

text \<open>\<^verbatim>\<open>\s*\<close>, greedy: the longest run first, then each shorter one\<close>

fun rx_spaces :: "string \<Rightarrow> string list" where
  "rx_spaces [] = [[]]"
| "rx_spaces (c # cs) = (if is_space c then rx_spaces cs @ [c # cs] else [c # cs])"

text \<open>\<^verbatim>\<open>\s+\<close>, greedy\<close>

definition rx_spaces1 :: "string \<Rightarrow> string list" where
  "rx_spaces1 s = (case s of [] \<Rightarrow> [] | c # cs \<Rightarrow> if is_space c then rx_spaces cs else [])"

text \<open>one character of a class, capturing; concatenation of two capturing patterns\<close>

definition rx_one :: "(char \<Rightarrow> bool) \<Rightarrow> string \<Rightarrow> (string \<times> string) list" where
  "rx_one P s = (case s of [] \<Rightarrow> [] | c # cs \<Rightarrow> if P c then [([c], cs)] else [])"

definition rx_cat ::
  "(string \<Rightarrow> (string \<times> string) list) \<Rightarrow> (string \<Rightarrow> (string \<times> string) list) \<Rightarrow>
   string \<Rightarrow> (string \<times> string) list" where
  "rx_cat p q s = do { (a, r) \<leftarrow> p s; (b, r') \<leftarrow> q r; [(a @ b, r')] }"

text \<open>
  \<^verbatim>\<open>re.search(p, s)\<close>: the start positions are tried from left to right, and at the first
  one where the pattern matches, its first match is taken. The result is the captured
  groups, or \<open>None\<close>.
\<close>

fun re_search :: "(string \<Rightarrow> ('g \<times> string) list) \<Rightarrow> string \<Rightarrow> 'g option" where
  "re_search p [] = (case p [] of [] \<Rightarrow> None | (g, r) # _ \<Rightarrow> Some g)"
| "re_search p (c # cs) =
     (case p (c # cs) of [] \<Rightarrow> re_search p cs | (g, r) # _ \<Rightarrow> Some g)"

text \<open>
  The patterns with \<^verbatim>\<open>\b\<close> look at the character before the current position, so a
  position is the pair of that character (\<open>None\<close> at the start of the text) and the text
  from there on.
\<close>

type_synonym pos = "char option \<times> string"

text \<open>\<^verbatim>\<open>\b\<close>: exactly one of the two neighbouring characters is a word character\<close>

definition word_boundary :: "pos \<Rightarrow> bool" where
  "word_boundary p =
     ((case fst p of None \<Rightarrow> False | Some c \<Rightarrow> is_word c) \<noteq>
      (case snd p of [] \<Rightarrow> False | c # _ \<Rightarrow> is_word c))"

definition rx_wordb :: "pos \<Rightarrow> pos list" where
  "rx_wordb p = (if word_boundary p then [p] else [])"

text \<open>a literal lower-case word, under \<^verbatim>\<open>re.IGNORECASE\<close>\<close>

fun rx_word_ci :: "string \<Rightarrow> pos \<Rightarrow> pos list" where
  "rx_word_ci [] p = [p]"
| "rx_word_ci (a # as) (prev, []) = []"
| "rx_word_ci (a # as) (prev, c # cs) =
     (if ascii_lower c = a then rx_word_ci as (Some c, cs) else [])"

text \<open>\<^verbatim>\<open>\b(w1|w2|...)\b\<close> under \<^verbatim>\<open>re.IGNORECASE\<close>\<close>

definition rx_whole_word :: "string list \<Rightarrow> pos \<Rightarrow> pos list" where
  "rx_whole_word ws p0 = do {
     p1 \<leftarrow> rx_wordb p0;
     p2 \<leftarrow> concat (map (\<lambda>w. rx_word_ci w p1) ws);
     rx_wordb p2
   }"

text \<open>
  \<^verbatim>\<open>re.sub(p, '', s)\<close>: the text is scanned from the left; where the pattern matches, the
  matched text is dropped and the scan goes on behind it, otherwise one character is kept.
  The patterns used here never match the empty text; a match that consumes nothing is
  treated as no match, which is what an empty replacement amounts to.
\<close>

function re_sub_empty :: "(pos \<Rightarrow> pos list) \<Rightarrow> pos \<Rightarrow> string" where
  "re_sub_empty p (prev, s) =
     (case p (prev, s) of
        (prev', s') # _ \<Rightarrow>
          if length s' < length s then re_sub_empty p (prev', s')
          else (case s of [] \<Rightarrow> [] | c # cs \<Rightarrow> c # re_sub_empty p (Some c, cs))
      | [] \<Rightarrow> (case s of [] \<Rightarrow> [] | c # cs \<Rightarrow> c # re_sub_empty p (Some c, cs)))"
  by pat_completeness auto
termination
  by (relation "measure (\<lambda>(p, prev, s). length s)") auto

declare re_sub_empty.simps [simp del]

section \<open>Configuration (config.py)\<close>

definition BASE_URL :: string where
  "BASE_URL = ''https://www.prospektmaschine.de''"

definition OPEN_ENDED_DATE :: string where
  "OPEN_ENDED_DATE = ''9999-12-31''"

definition GERMAN_DAYS :: "string list" where
  "GERMAN_DAYS =
     [''montag'', ''dienstag'', ''mittwoch'', ''donnerstag'',
      ''freitag'', ''samstag'', ''sonntag'']"

section \<open>DateParser.parse_date_range (parsers.py)\<close>

text \<open>pattern1: \<^verbatim>\<open>(\d{2})\.(\d{2})\.(\d{4})\s*-\s*(\d{2})\.(\d{2})\.(\d{4})\<close>\<close>

definition pattern1 ::
  "string \<Rightarrow> ((string \<times> string \<times> string \<times> string \<times> string \<times> string) \<times> string) list" where
  "pattern1 s0 = do {
     (day1, s1) \<leftarrow> rx_digits 2 s0;
     s2 \<leftarrow> rx_lit CHR ''.'' s1;
     (month1, s3) \<leftarrow> rx_digits 2 s2;
     s4 \<leftarrow> rx_lit CHR ''.'' s3;
     (year1, s5) \<leftarrow> rx_digits 4 s4;
     s6 \<leftarrow> rx_spaces s5;
     s7 \<leftarrow> rx_lit CHR ''-'' s6;
     s8 \<leftarrow> rx_spaces s7;
     (day2, s9) \<leftarrow> rx_digits 2 s8;
     s10 \<leftarrow> rx_lit CHR ''.'' s9;
     (month2, s11) \<leftarrow> rx_digits 2 s10;
     s12 \<leftarrow> rx_lit CHR ''.'' s11;
     (year2, s13) \<leftarrow> rx_digits 4 s12;
     [((day1, month1, year1, day2, month2, year2), s13)]
   }"

text \<open>pattern2: \<^verbatim>\<open>(\d{2})\.(\d{2})\.\s*-\s*(\d{2})\.(\d{2})\.(\d{4})\<close>\<close>

definition pattern2 ::
  "string \<Rightarrow> ((string \<times> string \<times> string \<times> string \<times> string) \<times> string) list" where
  "pattern2 s0 = do {
     (day1, s1) \<leftarrow> rx_digits 2 s0;
     s2 \<leftarrow> rx_lit CHR ''.'' s1;
     (month1, s3) \<leftarrow> rx_digits 2 s2;
     s4 \<leftarrow> rx_lit CHR ''.'' s3;
     s5 \<leftarrow> rx_spaces s4;
     s6 \<leftarrow> rx_lit CHR ''-'' s5;
     s7 \<leftarrow> rx_spaces s6;
     (day2, s8) \<leftarrow> rx_digits 2 s7;
     s9 \<leftarrow> rx_lit CHR ''.'' s8;
     (month2, s10) \<leftarrow> rx_digits 2 s9;
     s11 \<leftarrow> rx_lit CHR ''.'' s10;
     (year2, s12) \<leftarrow> rx_digits 4 s11;
     [((day1, month1, day2, month2, year2), s12)]
   }"

text \<open>pattern3: \<^verbatim>\<open>(\d{2})\.(\d{2})\.(\d{4})\<close>\<close>

definition pattern3 :: "string \<Rightarrow> ((string \<times> string \<times> string) \<times> string) list" where
  "pattern3 s0 = do {
     (day, s1) \<leftarrow> rx_digits 2 s0;
     s2 \<leftarrow> rx_lit CHR ''.'' s1;
     (month, s3) \<leftarrow> rx_digits 2 s2;
     s4 \<leftarrow> rx_lit CHR ''.'' s3;
     (year, s5) \<leftarrow> rx_digits 4 s4;
     [((day, month, year), s5)]
   }"

text \<open>
  The cleaning steps at the head of \<open>parse_date_range\<close>: strip, remove each day name of
  \<open>GERMAN_DAYS\<close> in turn, remove the prefixes, strip again.
\<close>

definition remove_day :: "string \<Rightarrow> string \<Rightarrow> string" where
  "remove_day date_string day = re_sub_empty (rx_whole_word [day]) (None, date_string)"

definition remove_prefixes :: "string \<Rightarrow> string" where
  "remove_prefixes date_string =
     re_sub_empty (rx_whole_word [''von'', ''ab'', ''seit'']) (None, date_string)"

definition clean :: "string \<Rightarrow> string" where
  "clean original_string =
     strip (remove_prefixes (foldl remove_day (strip original_string) GERMAN_DAYS))"

text \<open>\<^verbatim>\<open>f"{year}-{month}-{day}"\<close>\<close>

definition iso :: "string \<Rightarrow> string \<Rightarrow> string \<Rightarrow> string" where
  "iso year month day = year @ ''-'' @ month @ ''-'' @ day"

text \<open>
  The handler \<^verbatim>\<open>except Exception as e\<close>, which turns any other exception of the body
  into a \<open>ParsingException\<close>.
\<close>

definition failed_to_parse :: "string \<Rightarrow> error \<Rightarrow> error" where
  "failed_to_parse original_string e =
     ParsingException
       (''Failed to parse date range '' @ [CHR 0x27] @ original_string @ [CHR 0x27] @ '': '' @
        error_message e)"

text \<open>
  The parameter \<open>current_year\<close> of the source is never read after it is set, so it is
  left out. The call to the logger in the third branch has no effect on the result.
\<close>

definition parse_date_range :: "string \<Rightarrow> error + (string \<times> string)" where
  "parse_date_range original_string =
     (let date_string = clean original_string in
      case re_search pattern1 date_string of
        Some (day1, month1, year1, day2, month2, year2) \<Rightarrow>
          Inr (iso year1 month1 day1, iso year2 month2 day2)
      | None \<Rightarrow>
         (case re_search pattern2 date_string of
            Some (day1, month1, day2, month2, year2) \<Rightarrow>
              (case py_int month1 of
                 Inl e \<Rightarrow> Inl (failed_to_parse original_string e)
               | Inr m1 \<Rightarrow>
                  (case py_int month2 of
                     Inl e \<Rightarrow> Inl (failed_to_parse original_string e)
                   | Inr m2 \<Rightarrow>
                      if m1 \<le> m2 then Inr (iso year2 month1 day1, iso year2 month2 day2)
                      else
                        (case py_int year2 of
                           Inl e \<Rightarrow> Inl (failed_to_parse original_string e)
                         | Inr y2 \<Rightarrow>
                             Inr (iso (py_str (y2 - 1)) month1 day1, iso year2 month2 day2))))
          | None \<Rightarrow>
             (case re_search pattern3 date_string of
                Some (day, month, year) \<Rightarrow> Inr (iso year month day, OPEN_ENDED_DATE)
              | None \<Rightarrow>
                  Inl (ParsingException (''Unsupported date format: '' @ original_string)))))"

section \<open>datetime.strptime\<close>

text \<open>
  \<^verbatim>\<open>datetime.strptime\<close> is library code (\<^verbatim>\<open>_strptime.py\<close> of CPython 3.11). It turns
  the format into a regular expression, matches it at the start of the text, rejects text
  that remains behind the match, converts the groups with \<^verbatim>\<open>int\<close> and builds the
  \<^verbatim>\<open>datetime\<close>, whose constructor checks the ranges. The directives used here are

  \<^item> \<^verbatim>\<open>%Y\<close>: \<^verbatim>\<open>\d\d\d\d\<close>
  \<^item> \<^verbatim>\<open>%m\<close>: \<^verbatim>\<open>1[0-2]|0[1-9]|[1-9]\<close>
  \<^item> \<^verbatim>\<open>%d\<close>: \<^verbatim>\<open>3[0-1]|[1-2]\d|0[1-9]|[1-9]| [1-9]\<close>
  \<^item> \<^verbatim>\<open>%H\<close>: \<^verbatim>\<open>2[0-3]|[0-1]\d|\d\<close>
  \<^item> \<^verbatim>\<open>%M\<close>: \<^verbatim>\<open>[0-5]\d|\d\<close>
  \<^item> \<^verbatim>\<open>%S\<close>: \<^verbatim>\<open>6[0-1]|[0-5]\d|\d\<close>

  and white space in the format stands for \<^verbatim>\<open>\s+\<close>.
\<close>

definition rx_Y :: "string \<Rightarrow> (string \<times> string) list" where
  "rx_Y s = rx_digits 4 s"

definition rx_m :: "string \<Rightarrow> (string \<times> string) list" where
  "rx_m s =
     rx_cat (rx_one (\<lambda>c. c = CHR ''1'')) (rx_one (between 48 50)) s @
     rx_cat (rx_one (\<lambda>c. c = CHR ''0'')) (rx_one (between 49 57)) s @
     rx_one (between 49 57) s"

definition rx_d :: "string \<Rightarrow> (string \<times> string) list" where
  "rx_d s =
     rx_cat (rx_one (\<lambda>c. c = CHR ''3'')) (rx_one (between 48 49)) s @
     rx_cat (rx_one (between 49 50)) (rx_one is_digit) s @
     rx_cat (rx_one (\<lambda>c. c = CHR ''0'')) (rx_one (between 49 57)) s @
     rx_one (between 49 57) s @
     rx_cat (rx_one (\<lambda>c. c = CHR '' '')) (rx_one (between 49 57)) s"

definition rx_H :: "string \<Rightarrow> (string \<times> string) list" where
  "rx_H s =
     rx_cat (rx_one (\<lambda>c. c = CHR ''2'')) (rx_one (between 48 51)) s @
     rx_cat (rx_one (between 48 49)) (rx_one is_digit) s @
     rx_one is_digit s"

definition rx_M :: "string \<Rightarrow> (string \<times> string) list" where
  "rx_M s =
     rx_cat (rx_one (between 48 53)) (rx_one is_digit) s @
     rx_one is_digit s"

definition rx_S :: "string \<Rightarrow> (string \<times> string) list" where
  "rx_S s =
     rx_cat (rx_one (\<lambda>c. c = CHR ''6'')) (rx_one (between 48 49)) s @
     rx_cat (rx_one (between 48 53)) (rx_one is_digit) s @
     rx_one is_digit s"

text \<open>the regular expression of the format \<^verbatim>\<open>%Y-%m-%d\<close>\<close>

definition date_format_regex :: "string \<Rightarrow> ((string \<times> string \<times> string) \<times> string) list" where
  "date_format_regex s0 = do {
     (y, s1) \<leftarrow> rx_Y s0;
     s2 \<leftarrow> rx_lit CHR ''-'' s1;
     (m, s3) \<leftarrow> rx_m s2;
     s4 \<leftarrow> rx_lit CHR ''-'' s3;
     (d, s5) \<leftarrow> rx_d s4;
     [((y, m, d), s5)]
   }"

text \<open>the regular expression of the format \<^verbatim>\<open>%Y-%m-%d %H:%M:%S\<close>\<close>

definition datetime_format_regex ::
  "string \<Rightarrow> ((string \<times> string \<times> string \<times> string \<times> string \<times> string) \<times> string) list" where
  "datetime_format_regex s0 = do {
     (y, s1) \<leftarrow> rx_Y s0;
     s2 \<leftarrow> rx_lit CHR ''-'' s1;
     (m, s3) \<leftarrow> rx_m s2;
     s4 \<leftarrow> rx_lit CHR ''-'' s3;
     (d, s5) \<leftarrow> rx_d s4;
     s6 \<leftarrow> rx_spaces1 s5;
     (hh, s7) \<leftarrow> rx_H s6;
     s8 \<leftarrow> rx_lit CHR '':'' s7;
     (mm, s9) \<leftarrow> rx_M s8;
     s10 \<leftarrow> rx_lit CHR '':'' s9;
     (ss, s11) \<leftarrow> rx_S s10;
     [((y, m, d, hh, mm, ss), s11)]
   }"

text \<open>\<^verbatim>\<open>regex.match(s)\<close>: the first match at the start of the text, with what remains\<close>

definition re_match :: "(string \<Rightarrow> ('g \<times> string) list) \<Rightarrow> string \<Rightarrow> ('g \<times> string) option" where
  "re_match p s = (case p s of [] \<Rightarrow> None | x # _ \<Rightarrow> Some x)"

text \<open>\<^verbatim>\<open>int\<close> of a group of the expressions above: digits, after one blank at most\<close>

definition group_int :: "string \<Rightarrow> nat" where
  "group_int g = digits_value (strip g)"

definition is_leap :: "nat \<Rightarrow> bool" where
  "is_leap y = (y mod 4 = 0 \<and> (y mod 100 \<noteq> 0 \<or> y mod 400 = 0))"

definition days_in_month :: "nat \<Rightarrow> nat \<Rightarrow> nat" where
  "days_in_month y m =
     (if m = 2 then (if is_leap y then 29 else 28)
      else if m = 4 \<or> m = 6 \<or> m = 9 \<or> m = 11 then 30 else 31)"

text \<open>
  A \<^verbatim>\<open>datetime\<close> value: year, month, day, hour, minute, second. Values compare as
  Python compares them, field by field from the year on, which is the lexicographic order
  of the tuples.
\<close>

type_synonym datetime = "nat \<times> nat \<times> nat \<times> nat \<times> nat \<times> nat"

text \<open>the range checks of the constructors of \<^verbatim>\<open>date\<close> and \<^verbatim>\<open>datetime\<close>\<close>

definition new_datetime :: "nat \<Rightarrow> nat \<Rightarrow> nat \<Rightarrow> nat \<Rightarrow> nat \<Rightarrow> nat \<Rightarrow> error + datetime" where
  "new_datetime y m d hh mm ss =
     (if y < 1 \<or> 9999 < y then Inl (ValueError ''year is out of range'')
      else if m < 1 \<or> 12 < m then Inl (ValueError ''month must be in 1..12'')
      else if d < 1 \<or> days_in_month y m < d then Inl (ValueError ''day is out of range for month'')
      else if 23 < hh then Inl (ValueError ''hour must be in 0..23'')
      else if 59 < mm then Inl (ValueError ''minute must be in 0..59'')
      else if 59 < ss then Inl (ValueError ''second must be in 0..59'')
      else Inr (y, m, d, hh, mm, ss))"

text \<open>\<^verbatim>\<open>datetime.strptime(s, '%Y-%m-%d')\<close>\<close>

definition strptime_date :: "string \<Rightarrow> error + datetime" where
  "strptime_date s =
     (case re_match date_format_regex s of
        None \<Rightarrow> Inl (ValueError (''time data does not match format: '' @ s))
      | Some ((y, m, d), rest) \<Rightarrow>
          if rest \<noteq> [] then Inl (ValueError (''unconverted data remains: '' @ rest))
          else new_datetime (group_int y) (group_int m) (group_int d) 0 0 0)"

text \<open>\<^verbatim>\<open>datetime.strptime(s, '%Y-%m-%d %H:%M:%S')\<close>\<close>

definition strptime_datetime :: "string \<Rightarrow> error + datetime" where
  "strptime_datetime s =
     (case re_match datetime_format_regex s of
        None \<Rightarrow> Inl (ValueError (''time data does not match format: '' @ s))
      | Some ((y, m, d, hh, mm, ss), rest) \<Rightarrow>
          if rest \<noteq> [] then Inl (ValueError (''unconverted data remains: '' @ rest))
          else new_datetime (group_int y) (group_int m) (group_int d)
                 (group_int hh) (group_int mm) (group_int ss))"

section \<open>Leaflet (models.py)\<close>

record leaflet =
  title :: string
  thumbnail :: string
  shop_name :: string
  valid_from :: string
  valid_to :: string
  parsed_time :: string

text \<open>
  \<open>Leaflet.validate\<close>. The three calls of \<^verbatim>\<open>strptime\<close> in the \<^verbatim>\<open>try\<close> block raise
  \<open>ValueError\<close>, which the handler turns into a \<open>ValidationException\<close>; the two calls
  in the date-logic block are outside of it.
\<close>

definition invalid_date_format :: "error \<Rightarrow> error" where
  "invalid_date_format e = ValidationException (''Invalid date format: '' @ error_message e)"

definition validate :: "leaflet \<Rightarrow> error + bool" where
  "validate self =
     (if title self = [] \<or> strip (title self) = [] then
        Inl (ValidationException ''Title cannot be empty'')
      else if thumbnail self = [] \<or> \<not> startswith (thumbnail self) ''http'' then
        Inl (ValidationException (''Invalid thumbnail URL: '' @ thumbnail self))
      else if shop_name self = [] \<or> strip (shop_name self) = [] then
        Inl (ValidationException ''Shop name cannot be empty'')
      else
        (case strptime_date (valid_from self) of
           Inl e \<Rightarrow> Inl (invalid_date_format e)
         | Inr _ \<Rightarrow>
        (case strptime_date (valid_to self) of
           Inl e \<Rightarrow> Inl (invalid_date_format e)
         | Inr _ \<Rightarrow>
        (case strptime_datetime (parsed_time self) of
           Inl e \<Rightarrow> Inl (invalid_date_format e)
         | Inr _ \<Rightarrow>
             if valid_to self \<noteq> OPEN_ENDED_DATE then
               (case strptime_date (valid_from self) of
                  Inl e \<Rightarrow> Inl e
                | Inr from_date \<Rightarrow>
               (case strptime_date (valid_to self) of
                  Inl e \<Rightarrow> Inl e
                | Inr to_date \<Rightarrow>
                    if from_date > to_date then
                      Inl (ValidationException
                             (''valid_from ('' @ valid_from self @ '') is after valid_to ('' @
                              valid_to self @ '')''))
                    else Inr True))
             else Inr True))))"

definition is_open_ended :: "leaflet \<Rightarrow> bool" where
  "is_open_ended self = (valid_to self = OPEN_ENDED_DATE)"

section \<open>LeafletParser (parsers.py)\<close>

text \<open>
  The HTML fragment is an object of the library BeautifulSoup. The parser reads it through
  seven selectors only, so a fragment is modelled by what they return: \<open>None\<close> where
  \<^verbatim>\<open>select_one\<close> finds no element, else the stripped text of the element found
  (\<^verbatim>\<open>get_text(strip=True)\<close>), or for an image its three attributes, each absent or a
  text.
\<close>

record img =
  attr_src :: "string option"
  attr_data_src :: "string option"
  attr_srcset :: "string option"

record element =
  sel_h2 :: "string option"
  sel_picture_img :: "img option"
  sel_wrapper_img :: "img option"
  sel_figure_img :: "img option"
  sel_shop_name :: "string option"
  sel_hidden_sm :: "string option"
  sel_visible_sm :: "string option"

text \<open>
  Python does not check the type of an argument, so the parser can be handed an object
  that is no fragment (\<^verbatim>\<open>None\<close>, for one); it has no method \<^verbatim>\<open>select_one\<close>.
\<close>

datatype fragment = Tag element | NotATag

text \<open>the truth value of an attribute: absent and empty count as false\<close>

definition truthy :: "string option \<Rightarrow> bool" where
  "truthy v = (case v of None \<Rightarrow> False | Some s \<Rightarrow> s \<noteq> [])"

text \<open>\<^verbatim>\<open>a or b\<close>\<close>

definition py_or :: "string option \<Rightarrow> string option \<Rightarrow> string option" where
  "py_or a b = (if truthy a then a else b)"

text \<open>\<^verbatim>\<open>srcset.split(',')[0].split()[0]\<close>\<close>

definition first_srcset_url :: "string \<Rightarrow> error + string" where
  "first_srcset_url srcset =
     (let first_part = takeWhile (\<lambda>c. c \<noteq> CHR '','') srcset;
          token = dropWhile is_space first_part
      in if token = [] then Inl (IndexError ''list index out of range'')
         else Inr (takeWhile (\<lambda>c. \<not> is_space c) token))"

text \<open>
  strategies 2 and 3 of \<open>_extract_thumbnail\<close>: \<^verbatim>\<open>src\<close> or \<^verbatim>\<open>data-src\<close> of the image, if
  there is one and the value is not empty
\<close>

definition src_or_data_src :: "img option \<Rightarrow> string option" where
  "src_or_data_src img_elem =
     (case img_elem of
        None \<Rightarrow> None
      | Some i \<Rightarrow>
          (let found = py_or (attr_src i) (attr_data_src i)
           in if truthy found then found else None))"

definition extract_thumbnail_fallback :: "element \<Rightarrow> string option" where
  "extract_thumbnail_fallback element =
     (case src_or_data_src (sel_wrapper_img element) of
        Some found \<Rightarrow> Some found
      | None \<Rightarrow>
          (case src_or_data_src (sel_figure_img element) of
             Some found \<Rightarrow> Some found
           | None \<Rightarrow> None))"

text \<open>\<open>LeafletParser._extract_thumbnail\<close>; the debug logging is left out\<close>

definition extract_thumbnail :: "element \<Rightarrow> error + string option" where
  "extract_thumbnail element =
     (case sel_picture_img element of
        None \<Rightarrow> Inr (extract_thumbnail_fallback element)
      | Some i \<Rightarrow>
          if truthy (attr_src i) then Inr (attr_src i)
          else if truthy (attr_data_src i) then Inr (attr_data_src i)
          else
            (case attr_srcset i of
               None \<Rightarrow> Inr (extract_thumbnail_fallback element)
             | Some srcset \<Rightarrow>
                 if srcset = [] then Inr (extract_thumbnail_fallback element)
                 else
                   (case first_srcset_url srcset of
                      Inl e \<Rightarrow> Inl e
                    | Inr found \<Rightarrow> Inr (Some found))))"

text \<open>
  The body of the \<^verbatim>\<open>try\<close> block of \<open>LeafletParser.parse\<close>. \<^verbatim>\<open>urljoin\<close> is library
  code and a parameter here, \<open>now\<close> is the text that
  \<^verbatim>\<open>datetime.now().strftime('%Y-%m-%d %H:%M:%S')\<close> gives at the call, \<open>shop_override\<close>
  is the argument \<^verbatim>\<open>shop_name\<close> (\<open>None\<close> by default). \<open>Inr None\<close> is
  \<^verbatim>\<open>return None\<close>. Local variables that share their name with a field of the record
  are renamed.
\<close>

definition parse_body ::
  "(string \<Rightarrow> string \<Rightarrow> string) \<Rightarrow> string \<Rightarrow> string \<Rightarrow> fragment \<Rightarrow> string option \<Rightarrow>
   error + leaflet option" where
  "parse_body urljoin base_url now fragment shop_override =
     (case fragment of
        NotATag \<Rightarrow> Inl (AttributeError ''object has no attribute select_one'')
      | Tag element \<Rightarrow>
     (case sel_h2 element of
        None \<Rightarrow> Inr None
      | Some title_text \<Rightarrow>
     (case extract_thumbnail element of
        Inl e \<Rightarrow> Inl e
      | Inr None \<Rightarrow> Inr None
      | Inr (Some found) \<Rightarrow>
          if found = [] then Inr None
          else
     (let thumbnail_url = (if \<not> startswith found ''http'' then urljoin base_url found else found) in
     (case (if \<not> truthy shop_override then sel_shop_name element else shop_override) of
        None \<Rightarrow> Inr None
      | Some shop \<Rightarrow>
     (case (case sel_hidden_sm element of
              None \<Rightarrow> sel_visible_sm element
            | Some text \<Rightarrow> if text = [] then sel_visible_sm element else Some text) of
        None \<Rightarrow> Inr None
      | Some date_string \<Rightarrow>
     (case parse_date_range date_string of
        Inl e \<Rightarrow> Inl e
      | Inr (date_from, date_to) \<Rightarrow>
     (let new_leaflet = \<lparr> title = title_text, thumbnail = thumbnail_url, shop_name = shop,
                          valid_from = date_from, valid_to = date_to, parsed_time = now \<rparr> in
      case validate new_leaflet of
        Inl e \<Rightarrow> Inl e
      | Inr _ \<Rightarrow> Inr (Some new_leaflet)))))))))"

text \<open>
  \<open>LeafletParser.parse\<close>: the whole body is inside \<^verbatim>\<open>try\<close>, and the handler
  \<^verbatim>\<open>except Exception\<close> logs the exception and returns \<^verbatim>\<open>None\<close>. The index is only
  used for logging.
\<close>

definition parse ::
  "(string \<Rightarrow> string \<Rightarrow> string) \<Rightarrow> string \<Rightarrow> string \<Rightarrow> fragment \<Rightarrow> string option \<Rightarrow>
   error + leaflet option" where
  "parse urljoin base_url now fragment shop_override =
     (case parse_body urljoin base_url now fragment shop_override of
        Inl e \<Rightarrow> Inr None
      | Inr result \<Rightarrow> Inr result)"

section \<open>LeafletScraper.extract_leaflets_from_page (scrapers.py)\<close>

text \<open>
  The page is parsed by BeautifulSoup; the method reads it through two selectors. A page is
  modelled by what they return: \<open>None\<close> where there is no container
  \<^verbatim>\<open>div.letaky-grid\<close>, else the item fragments of the container in document order. The
  clock gives, for the index of an item, the time text of its call of \<open>parse\<close>.
\<close>

type_synonym page = "element list option"

text \<open>the \<^verbatim>\<open>for\<close> loop over \<^verbatim>\<open>enumerate(leaflet_elements, 1)\<close>\<close>

fun extract_loop ::
  "(string \<Rightarrow> string \<Rightarrow> string) \<Rightarrow> (nat \<Rightarrow> string) \<Rightarrow> string option \<Rightarrow>
   nat \<Rightarrow> element list \<Rightarrow> leaflet list \<Rightarrow> error + leaflet list" where
  "extract_loop urljoin clock shop_override idx [] leaflets = Inr leaflets"
| "extract_loop urljoin clock shop_override idx (element # rest) leaflets =
     (case parse urljoin BASE_URL (clock idx) (Tag element) shop_override of
        Inl e \<Rightarrow> Inl e
      | Inr None \<Rightarrow> extract_loop urljoin clock shop_override (Suc idx) rest leaflets
      | Inr (Some new_leaflet) \<Rightarrow>
          extract_loop urljoin clock shop_override (Suc idx) rest (leaflets @ [new_leaflet]))"

definition extract_leaflets_from_page ::
  "(string \<Rightarrow> string \<Rightarrow> string) \<Rightarrow> (nat \<Rightarrow> string) \<Rightarrow> page \<Rightarrow> string option \<Rightarrow>
   error + leaflet list" where
  "extract_leaflets_from_page urljoin clock html shop_override =
     (case html of
        None \<Rightarrow> Inr []
      | Some leaflet_elements \<Rightarrow>
          if leaflet_elements = [] then Inr []
          else extract_loop urljoin clock shop_override 1 leaflet_elements [])"

section \<open>Example data\<close>

text \<open>
  \<^verbatim>\<open>urljoin\<close> stands outside of the code. For a base URL without a path and a reference
  that begins with one slash it gives the base followed by the reference; this function
  stands in for it in the examples, which join no other kind of reference.
\<close>

definition urljoin_rooted :: "string \<Rightarrow> string \<Rightarrow> string" where
  "urljoin_rooted base url = base @ url"

definition example_img :: img where
  "example_img =
     \<lparr> attr_src = Some ''/img/leaflet.png'', attr_data_src = None, attr_srcset = None \<rparr>"

definition example_element :: element where
  "example_element =
     \<lparr> sel_h2 = Some ''Angebote'', sel_picture_img = Some example_img,
       sel_wrapper_img = Some example_img, sel_figure_img = None,
       sel_shop_name = Some ''Lidl'', sel_hidden_sm = Some ''02.02.2026 - 07.02.2026'',
       sel_visible_sm = Some ''02.02. - 07.02.2026'' \<rparr>"

definition example_now :: string where
  "example_now = ''2026-02-01 12:30:00''"

definition example_leaflet :: leaflet where
  "example_leaflet =
     \<lparr> title = ''Angebote'', thumbnail = ''https://www.prospektmaschine.de/img/leaflet.png'',
       shop_name = ''Lidl'', valid_from = ''2026-02-02'', valid_to = ''2026-02-07'',
       parsed_time = ''2026-02-01 12:30:00'' \<rparr>"

definition example_clock :: "nat \<Rightarrow> string" where
  "example_clock idx = example_now"

text \<open>a page of three items, the second of which has no shop name\<close>

definition example_page :: "element list" where
  "example_page =
     [example_element, example_element\<lparr>sel_shop_name := None\<rparr>,
      example_element\<lparr>sel_h2 := Some ''Zweite''\<rparr>]"

text \<open>
  The specification asks for a thumbnail that begins with an HTTP(S) scheme. This is the
  reading of these words that asks least: the scheme name and its colon.
\<close>

definition spec_begins_with_http_scheme :: "string \<Rightarrow> bool" where
  "spec_begins_with_http_scheme url = (startswith url ''http:'' \<or> startswith url ''https:'')"

section \<open>Properties of the date parser\<close>

subsection \<open>Searching\<close>

text \<open>\<open>re_search\<close> finds nothing exactly when the pattern matches at no position.\<close>

lemma re_search_None_iff:
  "re_search p s = None \<longleftrightarrow> (\<forall>pre post. s = pre @ post \<longrightarrow> p post = [])"
proof (induction s)
  case Nil
  show ?case by (auto split: list.splits)
next
  case (Cons c cs)
  show ?case
  proof
    assume "re_search p (c # cs) = None"
    then have h: "p (c # cs) = []" "re_search p cs = None"
      by (auto split: list.splits)
    show "\<forall>pre post. c # cs = pre @ post \<longrightarrow> p post = []"
    proof (intro allI impI)
      fix pre post assume e: "c # cs = pre @ post"
      show "p post = []"
      proof (cases pre)
        case Nil
        with e h show ?thesis by simp
      next
        case (Cons x xs)
        with e have "cs = xs @ post" by simp
        with h Cons.IH show ?thesis by blast
      qed
    qed
  next
    assume a: "\<forall>pre post. c # cs = pre @ post \<longrightarrow> p post = []"
    then have "p (c # cs) = []" by (metis append_Nil)
    moreover have "\<forall>pre post. cs = pre @ post \<longrightarrow> p post = []"
      using a by (metis append_Cons)
    ultimately show "re_search p (c # cs) = None"
      using Cons.IH by simp
  qed
qed

subsection \<open>No pattern matches\<close>

lemma clean_TBD: "clean ''TBD'' = ''TBD''"
  by code_simp

lemma search_TBD:
  "re_search pattern1 ''TBD'' = None"
  "re_search pattern2 ''TBD'' = None"
  "re_search pattern3 ''TBD'' = None"
  by code_simp+

text \<open>
  Claim C7. If, after the cleaning, none of the three patterns matches at any position of
  the text, \<open>parse_date_range\<close> raises a \<open>ParsingException\<close> whose message ends with
  the text as it was given, before the cleaning.
\<close>

theorem no_pattern_raises_ParsingException:
  assumes "\<forall>pre post. clean s = pre @ post \<longrightarrow>
             pattern1 post = [] \<and> pattern2 post = [] \<and> pattern3 post = []"
  shows "parse_date_range s = Inl (ParsingException (''Unsupported date format: '' @ s))"
proof -
  have "re_search pattern1 (clean s) = None" "re_search pattern2 (clean s) = None"
       "re_search pattern3 (clean s) = None"
    using assms by (simp_all add: re_search_None_iff)
  then show ?thesis by (simp add: parse_date_range_def)
qed

theorem no_pattern_raises_ParsingException_witness:
  "parse_date_range ''TBD'' = Inl (ParsingException ''Unsupported date format: TBD'')"
proof -
  have "\<forall>pre post. clean ''TBD'' = pre @ post \<longrightarrow>
             pattern1 post = [] \<and> pattern2 post = [] \<and> pattern3 post = []"
    using search_TBD by (simp only: clean_TBD re_search_None_iff) blast
  from no_pattern_raises_ParsingException [OF this] show ?thesis by simp
qed

section \<open>Properties of the validation\<close>

lemma strip_Nil [simp]: "strip [] = []"
  by (simp add: strip_def)

lemma startswith_Nil_http [simp]: "\<not> startswith [] ''http''"
  by (simp add: startswith_def)

lemma days_in_month_le: "days_in_month y m \<le> 31"
  by (simp add: days_in_month_def)

lemma new_datetime_Inr:
  "new_datetime y m d hh mm ss = Inr dt \<longleftrightarrow>
     dt = (y, m, d, hh, mm, ss) \<and> 1 \<le> y \<and> y \<le> 9999 \<and> 1 \<le> m \<and> m \<le> 12 \<and>
     1 \<le> d \<and> d \<le> days_in_month y m \<and> hh \<le> 23 \<and> mm \<le> 59 \<and> ss \<le> 59"
  by (auto simp: new_datetime_def)

text \<open>A text that \<open>strptime_date\<close> accepts is a date of the calendar, at midnight.\<close>

lemma strptime_date_bounds:
  assumes "strptime_date s = Inr (y, m, d, hh, mm, ss)"
  shows "1 \<le> y \<and> y \<le> 9999 \<and> 1 \<le> m \<and> m \<le> 12 \<and> 1 \<le> d \<and> d \<le> days_in_month y m \<and>
         hh = 0 \<and> mm = 0 \<and> ss = 0"
  using assms
  by (auto simp: strptime_date_def new_datetime_Inr split: option.splits if_splits prod.splits)

lemma strptime_date_le_max:
  assumes "strptime_date s = Inr dt"
  shows "dt \<le> (9999, 12, 31, 0, 0, 0)"
proof -
  obtain y m d hh mm ss where dt: "dt = (y, m, d, hh, mm, ss)"
    by (cases dt) auto
  from strptime_date_bounds [OF assms [unfolded dt]] days_in_month_le [of y m]
  show ?thesis unfolding dt
    by (auto simp: less_eq_prod_simp)
qed

lemma strptime_date_OPEN_ENDED_DATE:
  "strptime_date OPEN_ENDED_DATE = Inr (9999, 12, 31, 0, 0, 0)"
  by code_simp

text \<open>What a successful validation amounts to.\<close>

lemma validate_Inr:
  "validate self = Inr b \<longleftrightarrow>
     b \<and> strip (title self) \<noteq> [] \<and> startswith (thumbnail self) ''http'' \<and>
     strip (shop_name self) \<noteq> [] \<and>
     (\<exists>df dt t. strptime_date (valid_from self) = Inr df \<and>
        strptime_date (valid_to self) = Inr dt \<and>
        strptime_datetime (parsed_time self) = Inr t \<and>
        (valid_to self \<noteq> OPEN_ENDED_DATE \<longrightarrow> df \<le> dt))"
  by (auto simp: validate_def split: sum.splits)

lemma strptime_examples:
  "strptime_date ''2026-02-02'' = Inr (2026, 2, 2, 0, 0, 0)"
  "strptime_date ''2026-02-07'' = Inr (2026, 2, 7, 0, 0, 0)"
  "strptime_date ''2025-10-01'' = Inr (2025, 10, 1, 0, 0, 0)"
  "strptime_datetime ''2026-02-01 12:30:00'' = Inr (2026, 2, 1, 12, 30, 0)"
  by code_simp+

text \<open>
  Claim C6, as the code has it. For a record whose \<open>valid_to\<close> is the open-ended date,
  validation succeeds exactly when the title, the thumbnail, the shop name, the format of
  \<open>valid_from\<close> and the format of \<open>parsed_time\<close> are in order: the comparison of
  \<open>valid_from\<close> with \<open>valid_to\<close> plays no part, whatever \<open>valid_from\<close> is. The
  open-ended text is itself the text of a calendar date, 31 December 9999, the last one
  that \<open>strptime\<close> accepts: every date accepted is at most that date, and before it
  unless it is that date.
\<close>

theorem open_ended_passes_order_check:
  "(valid_to self = OPEN_ENDED_DATE \<longrightarrow>
      (validate self = Inr True \<longleftrightarrow>
         strip (title self) \<noteq> [] \<and> startswith (thumbnail self) ''http'' \<and>
         strip (shop_name self) \<noteq> [] \<and>
         (\<exists>df. strptime_date (valid_from self) = Inr df) \<and>
         (\<exists>t. strptime_datetime (parsed_time self) = Inr t))) \<and>
   strptime_date OPEN_ENDED_DATE = Inr (9999, 12, 31, 0, 0, 0) \<and>
   (\<forall>s dt. strptime_date s = Inr dt \<longrightarrow>
      dt \<le> (9999, 12, 31, 0, 0, 0) \<and>
      (dt < (9999, 12, 31, 0, 0, 0) \<longleftrightarrow> dt \<noteq> (9999, 12, 31, 0, 0, 0)))"
proof (intro conjI allI impI)
  assume "valid_to self = OPEN_ENDED_DATE"
  then show "validate self = Inr True \<longleftrightarrow>
         strip (title self) \<noteq> [] \<and> startswith (thumbnail self) ''http'' \<and>
         strip (shop_name self) \<noteq> [] \<and>
         (\<exists>df. strptime_date (valid_from self) = Inr df) \<and>
         (\<exists>t. strptime_datetime (parsed_time self) = Inr t)"
    by (auto simp: validate_Inr strptime_date_OPEN_ENDED_DATE)
next
  show "strptime_date OPEN_ENDED_DATE = Inr (9999, 12, 31, 0, 0, 0)"
    by (rule strptime_date_OPEN_ENDED_DATE)
next
  fix s dt assume "strptime_date s = Inr dt"
  then show "dt \<le> (9999, 12, 31, 0, 0, 0)"
    by (rule strptime_date_le_max)
  then show "dt < (9999, 12, 31, 0, 0, 0) \<longleftrightarrow> dt \<noteq> (9999, 12, 31, 0, 0, 0)"
    using order.strict_iff_order [of dt "(9999, 12, 31, 0, 0, 0)"] by blast
qed

theorem open_ended_passes_order_check_witness:
  "validate (example_leaflet\<lparr>valid_from := ''2025-10-01'', valid_to := OPEN_ENDED_DATE\<rparr>) = Inr True \<and>
   strptime_date ''2026-02-07'' = Inr (2026, 2, 7, 0, 0, 0) \<and>
   (2026, 2, 7, 0, 0, 0) < ((9999, 12, 31, 0, 0, 0) :: datetime)"
proof -
  let ?l = "example_leaflet\<lparr>valid_from := ''2025-10-01'', valid_to := OPEN_ENDED_DATE\<rparr>"
  have fields: "strip (title ?l) \<noteq> []" "startswith (thumbnail ?l) ''http''"
    "strip (shop_name ?l) \<noteq> []"
    by code_simp+
  have dates: "strptime_date (valid_from ?l) = Inr (2025, 10, 1, 0, 0, 0)"
    "strptime_datetime (parsed_time ?l) = Inr (2026, 2, 1, 12, 30, 0)"
    by (simp_all add: example_leaflet_def strptime_examples)
  have "valid_to ?l = OPEN_ENDED_DATE" by simp
  with open_ended_passes_order_check [of ?l] fields dates
  have "validate ?l = Inr True" by blast
  moreover have "(2026, 2, 7, 0, 0, 0) \<noteq> ((9999, 12, 31, 0, 0, 0) :: datetime)" by simp
  with open_ended_passes_order_check [of ?l] strptime_examples(2)
  have "(2026, 2, 7, 0, 0, 0) < ((9999, 12, 31, 0, 0, 0) :: datetime)" by blast
  ultimately show ?thesis using strptime_examples(2) by simp
qed

text \<open>
  The claim as the specification states it has the open-ended text sort after every real
  calendar date. It is the text of one: a range that ends on 31 December 9999 is
  parsed to a record whose \<open>valid_to\<close> is the open-ended text, and that date is not
  before itself.
\<close>

theorem last_calendar_date_counterexample:
  "parse_date_range ''01.01.2026 - 31.12.9999'' = Inr (''2026-01-01'', OPEN_ENDED_DATE) \<and>
   strptime_date ''9999-12-31'' = Inr (9999, 12, 31, 0, 0, 0) \<and>
   strptime_date OPEN_ENDED_DATE = Inr (9999, 12, 31, 0, 0, 0) \<and>
   \<not> (9999, 12, 31, 0, 0, 0) < ((9999, 12, 31, 0, 0, 0) :: datetime)"
proof -
  have "parse_date_range ''01.01.2026 - 31.12.9999'' = Inr (''2026-01-01'', OPEN_ENDED_DATE)"
    by code_simp
  moreover have "strptime_date ''9999-12-31'' = Inr (9999, 12, 31, 0, 0, 0)"
    by code_simp
  ultimately show ?thesis
    by (simp add: strptime_date_OPEN_ENDED_DATE)
qed

section \<open>Properties of the leaflet parser\<close>

lemma validate_only_True: "validate l = Inr b \<Longrightarrow> b = True"
  by (simp add: validate_Inr)

lemma parse_Inr: "\<exists>r. parse urljoin base_url now fragment shop_override = Inr r"
  by (simp add: parse_def split: sum.splits)


text \<open>
  The only way through the body that returns a record: every field is found, the date
  text parses, and the record built from them passes the validation.
\<close>

lemma parse_body_Some_D:
  assumes a: "parse_body urljoin base_url now fragment shop_override = Inr (Some l)"
  shows "\<exists>element title_text found shop date_string date_from date_to.
        fragment = Tag element \<and>
        sel_h2 element = Some title_text \<and>
        extract_thumbnail element = Inr (Some found) \<and> found \<noteq> [] \<and>
        (if \<not> truthy shop_override then sel_shop_name element else shop_override) = Some shop \<and>
        (case sel_hidden_sm element of
           None \<Rightarrow> sel_visible_sm element
         | Some text \<Rightarrow> if text = [] then sel_visible_sm element else Some text) = Some date_string \<and>
        parse_date_range date_string = Inr (date_from, date_to) \<and>
        l = \<lparr> title = title_text,
              thumbnail = (if \<not> startswith found ''http'' then urljoin base_url found else found),
              shop_name = shop, valid_from = date_from, valid_to = date_to,
              parsed_time = now \<rparr> \<and>
        validate l = Inr True"
proof -
  obtain element where f: "fragment = Tag element"
    using a by (cases fragment) (simp_all add: parse_body_def)
  note b = a [unfolded parse_body_def f fragment.case]
  obtain title_text where t: "sel_h2 element = Some title_text"
    using b by (cases "sel_h2 element") simp_all
  note b = b [unfolded t option.case]
  obtain th where e: "extract_thumbnail element = Inr th"
    using b by (cases "extract_thumbnail element") simp_all
  note b = b [unfolded e sum.case]
  obtain found where th: "th = Some found"
    using b by (cases th) simp_all
  note b = b [unfolded th option.case]
  have ne: "found \<noteq> []"
    using b by (cases "found = []") simp_all
  note b = b [simplified ne if_False Let_def]
  let ?s = "if \<not> truthy shop_override then sel_shop_name element else shop_override"
  obtain shop where s: "?s = Some shop"
    using b by (cases ?s) simp_all
  note b = b [unfolded s option.case]
  let ?d = "case sel_hidden_sm element of
           None \<Rightarrow> sel_visible_sm element
         | Some text \<Rightarrow> if text = [] then sel_visible_sm element else Some text"
  obtain date_string where d: "?d = Some date_string"
    using b by (cases ?d) simp_all
  note b = b [unfolded d option.case]
  obtain date_from date_to where p: "parse_date_range date_string = Inr (date_from, date_to)"
    using b by (cases "parse_date_range date_string") auto
  note b = b [unfolded p sum.case prod.case]
  let ?l = "\<lparr> title = title_text,
              thumbnail = (if \<not> startswith found ''http'' then urljoin base_url found else found),
              shop_name = shop, valid_from = date_from, valid_to = date_to,
              parsed_time = now \<rparr>"
  obtain ok where v: "validate ?l = Inr ok"
    using b by (cases "validate ?l") simp_all
  have l: "l = ?l"
    using b by (simp add: v)
  from v have "validate ?l = Inr True"
    using validate_only_True by blast
  with f t e th ne s d p l show ?thesis by blast
qed

lemma parse_Some_D:
  assumes "parse urljoin base_url now fragment shop_override = Inr (Some l)"
  shows "parse_body urljoin base_url now fragment shop_override = Inr (Some l)"
  using assms by (simp add: parse_def split: sum.splits)

lemma parse_Some_validate:
  assumes "parse urljoin base_url now fragment shop_override = Inr (Some l)"
  shows "validate l = Inr True"
  using parse_body_Some_D [OF parse_Some_D [OF assms]] by blast

text \<open>The same for a fragment.\<close>

lemma parse_Tag_Some_D:
  assumes "parse urljoin base_url now (Tag element) shop_override = Inr (Some l)"
  shows "\<exists>title_text found shop date_string date_from date_to.
        sel_h2 element = Some title_text \<and>
        extract_thumbnail element = Inr (Some found) \<and> found \<noteq> [] \<and>
        (if \<not> truthy shop_override then sel_shop_name element else shop_override) = Some shop \<and>
        (case sel_hidden_sm element of
           None \<Rightarrow> sel_visible_sm element
         | Some text \<Rightarrow> if text = [] then sel_visible_sm element else Some text) = Some date_string \<and>
        parse_date_range date_string = Inr (date_from, date_to) \<and>
        l = \<lparr> title = title_text,
              thumbnail = (if \<not> startswith found ''http'' then urljoin base_url found else found),
              shop_name = shop, valid_from = date_from, valid_to = date_to,
              parsed_time = now \<rparr> \<and>
        validate l = Inr True"
proof -
  from parse_body_Some_D [OF parse_Some_D [OF assms]]
  obtain element' title_text found shop date_string date_from date_to where
    h: "Tag element = Tag element'"
       "sel_h2 element' = Some title_text"
       "extract_thumbnail element' = Inr (Some found)" "found \<noteq> []"
       "(if \<not> truthy shop_override then sel_shop_name element' else shop_override) = Some shop"
       "(case sel_hidden_sm element' of
           None \<Rightarrow> sel_visible_sm element'
         | Some text \<Rightarrow> if text = [] then sel_visible_sm element' else Some text) = Some date_string"
       "parse_date_range date_string = Inr (date_from, date_to)"
       "l = \<lparr> title = title_text,
              thumbnail = (if \<not> startswith found ''http'' then urljoin base_url found else found),
              shop_name = shop, valid_from = date_from, valid_to = date_to,
              parsed_time = now \<rparr>"
       "validate l = Inr True"
    by (elim exE conjE)
  from h(1) have e: "element' = element" by simp
  from h(2-9) [unfolded e] show ?thesis
    by (intro exI conjI)
qed








subsection \<open>Examples\<close>

lemma parse_example:
  "parse urljoin_rooted BASE_URL example_now (Tag example_element) None =
   Inr (Some example_leaflet)"
  by code_simp

lemma parse_example_no_shop:
  "parse urljoin_rooted BASE_URL example_now
     (Tag (example_element\<lparr>sel_shop_name := None\<rparr>)) None = Inr None"
  by code_simp

lemma parse_example_second:
  "parse urljoin_rooted BASE_URL example_now
     (Tag (example_element\<lparr>sel_h2 := Some ''Zweite''\<rparr>)) None =
   Inr (Some (example_leaflet\<lparr>title := ''Zweite''\<rparr>))"
  by code_simp

lemma parse_body_TBD:
  "parse_body urljoin_rooted BASE_URL example_now
     (Tag (example_element\<lparr>sel_hidden_sm := Some ''TBD''\<rparr>)) None =
   Inl (ParsingException ''Unsupported date format: TBD'')"
  by code_simp





lemma parse_httpdocs:
  "parse urljoin_rooted BASE_URL example_now
     (Tag (example_element
             \<lparr>sel_picture_img := Some (example_img\<lparr>attr_src := Some ''httpdocs/img.png''\<rparr>)\<rparr>))
     None =
   Inr (Some (example_leaflet\<lparr>thumbnail := ''httpdocs/img.png''\<rparr>))"
  by code_simp

lemma httpdocs_no_scheme: "\<not> spec_begins_with_http_scheme ''httpdocs/img.png''"
  by code_simp

lemma validate_example_leaflet: "validate example_leaflet = Inr True"
  by (rule parse_Some_validate [OF parse_example])

lemma validate_httpdocs:
  "validate (example_leaflet\<lparr>thumbnail := ''httpdocs/img.png''\<rparr>) = Inr True"
  by (rule parse_Some_validate [OF parse_httpdocs])

lemma example_relative:
  "\<not> startswith ''/img/leaflet.png'' ''http''"
  "strip (title example_leaflet) \<noteq> []"
  "urljoin_rooted BASE_URL ''/img/leaflet.png'' = thumbnail example_leaflet"
  by code_simp+

subsection \<open>Exceptions in the parser\<close>




subsection \<open>Returned records are validated\<close>

text \<open>
  A record that \<open>parse\<close> returns has passed \<open>validate\<close>: its title and its shop
  name are not empty after stripping, its thumbnail begins with the four characters
  \<^verbatim>\<open>http\<close>, \<open>valid_from\<close>, \<open>valid_to\<close> and \<open>parsed_time\<close> are accepted by
  \<open>strptime\<close> in their formats, and \<open>valid_from\<close> is not after \<open>valid_to\<close> unless
  \<open>valid_to\<close> is the open-ended date.
\<close>

lemma parse_Some_fields:
  assumes "parse urljoin base_url now fragment shop_override = Inr (Some l)"
  shows "validate l = Inr True \<and>
         strip (title l) \<noteq> [] \<and> strip (shop_name l) \<noteq> [] \<and>
         startswith (thumbnail l) ''http'' \<and>
         (\<exists>df dt t. strptime_date (valid_from l) = Inr df \<and>
            strptime_date (valid_to l) = Inr dt \<and>
            strptime_datetime (parsed_time l) = Inr t \<and>
            (valid_to l \<noteq> OPEN_ENDED_DATE \<longrightarrow> df \<le> dt))"
proof -
  have "validate l = Inr True"
    by (rule parse_Some_validate [OF assms])
  then show ?thesis by (simp add: validate_Inr)
qed

text \<open>
  Claim C1 asks for an absolute thumbnail in every record returned, and the code sets out
  to give one: the comment before the test reads \<^verbatim>\<open># Ensure absolute URL\<close>. The test
  is \<^verbatim>\<open>startswith('http')\<close>, in \<open>parse\<close> and in \<open>validate\<close> alike. The relative
  reference \<^verbatim>\<open>httpdocs/img.png\<close> passes it: it is not joined with the base URL, and the
  record is returned with a thumbnail that has no scheme.
\<close>

theorem parse_returns_relative_thumbnail:
  "parse urljoin_rooted BASE_URL example_now
     (Tag (example_element
             \<lparr>sel_picture_img := Some (example_img\<lparr>attr_src := Some ''httpdocs/img.png''\<rparr>)\<rparr>))
     None =
   Inr (Some (example_leaflet\<lparr>thumbnail := ''httpdocs/img.png''\<rparr>)) \<and>
   \<not> spec_begins_with_http_scheme
       (thumbnail (example_leaflet\<lparr>thumbnail := ''httpdocs/img.png''\<rparr>))"
  using parse_httpdocs httpdocs_no_scheme by simp

subsection \<open>Thumbnail URLs\<close>

text \<open>
  The thumbnail of a returned record is the one found in the fragment if that begins with
  \<^verbatim>\<open>http\<close>, and else \<^verbatim>\<open>urljoin\<close> of the base URL and the one found.
\<close>

lemma parse_Some_thumbnail:
  assumes "parse urljoin base_url now (Tag element) shop_override = Inr (Some l)"
  shows "\<exists>found. extract_thumbnail element = Inr (Some found) \<and>
           thumbnail l = (if startswith found ''http'' then found else urljoin base_url found)"
  using parse_Tag_Some_D [OF assms] by auto

text \<open>A thumbnail that does not begin with \<^verbatim>\<open>http\<close> fails the validation.\<close>

lemma validate_thumbnail_prefix:
  assumes "\<not> startswith (thumbnail r) ''http''" "strip (title r) \<noteq> []"
  shows "validate r = Inl (ValidationException (''Invalid thumbnail URL: '' @ thumbnail r))"
  using assms by (auto simp: validate_def)

lemma validate_relative_example:
  "validate (example_leaflet\<lparr>thumbnail := ''/img/leaflet.png''\<rparr>) =
     Inl (ValidationException ''Invalid thumbnail URL: /img/leaflet.png'')"
  using validate_thumbnail_prefix [of "example_leaflet\<lparr>thumbnail := ''/img/leaflet.png''\<rparr>"]
    example_relative
  by simp

text \<open>
  Claim C8 has every thumbnail that is not absolute resolved against the base URL, lets a
  record pass the validation only with a thumbnail that begins with an HTTP(S) scheme,
  and has a relative thumbnail fail the validation before it is resolved. The code sets
  out to do so (\<^verbatim>\<open># Ensure absolute URL\<close>), with the test \<^verbatim>\<open>startswith('http')\<close> in
  both places. The relative reference \<^verbatim>\<open>httpdocs/img.png\<close> is found by
  \<open>extract_thumbnail\<close>, has no scheme, passes the validation unresolved, and is the
  thumbnail of the record returned: it was never joined with the base URL.
\<close>

theorem relative_thumbnail_passes_unresolved:
  "extract_thumbnail
     (example_element
        \<lparr>sel_picture_img := Some (example_img\<lparr>attr_src := Some ''httpdocs/img.png''\<rparr>)\<rparr>) =
     Inr (Some ''httpdocs/img.png'') \<and>
   \<not> spec_begins_with_http_scheme ''httpdocs/img.png'' \<and>
   validate (example_leaflet\<lparr>thumbnail := ''httpdocs/img.png''\<rparr>) = Inr True \<and>
   map_option thumbnail
     (projr (parse urljoin_rooted BASE_URL example_now
        (Tag (example_element
                \<lparr>sel_picture_img := Some (example_img\<lparr>attr_src := Some ''httpdocs/img.png''\<rparr>)\<rparr>))
        None)) = Some ''httpdocs/img.png''"
proof -
  have "extract_thumbnail
     (example_element
        \<lparr>sel_picture_img := Some (example_img\<lparr>attr_src := Some ''httpdocs/img.png''\<rparr>)\<rparr>) =
     Inr (Some ''httpdocs/img.png'')"
    by code_simp
  then show ?thesis
    using validate_httpdocs httpdocs_no_scheme by (simp add: parse_httpdocs)
qed

section \<open>Properties of the page extraction\<close>

lemma extract_loop_eq:
  "extract_loop urljoin clock shop_override idx els acc =
   Inr (acc @ List.map_filter
          (\<lambda>(i, el). case parse urljoin BASE_URL (clock i) (Tag el) shop_override of
                        Inl e \<Rightarrow> None | Inr r \<Rightarrow> r)
          (zip [idx..<idx + length els] els))"
proof (induction els arbitrary: idx acc)
  case Nil
  show ?case by (simp add: List.map_filter_simps)
next
  case (Cons el els)
  obtain r where r: "parse urljoin BASE_URL (clock idx) (Tag el) shop_override = Inr r"
    using parse_Inr by blast
  have upt: "[idx..<idx + length (el # els)] = idx # [Suc idx..<Suc idx + length els]"
    by (simp add: upt_rec)
  show ?case
    unfolding upt
    by (cases r) (simp_all add: r Cons.IH List.map_filter_simps del: upt_Suc)
qed

lemma example_page_indexed:
  "zip [1..<Suc (length example_page)] example_page =
   [(1, example_element), (2, example_element\<lparr>sel_shop_name := None\<rparr>),
    (3, example_element\<lparr>sel_h2 := Some ''Zweite''\<rparr>)]"
  by (simp add: example_page_def upt_rec)

text \<open>
  Claim C9. Without a container, and with a container that holds no item, the result is
  the empty list, and nothing is raised. Otherwise the items are numbered from 1 in
  document order, \<open>parse\<close> is applied to each, and the result is the list of the
  records returned, in that order; an item for which \<open>parse\<close> returns \<open>None\<close> is
  left out and the others stay.
\<close>

theorem extract_leaflets_from_page_collects:
  "extract_leaflets_from_page urljoin clock None shop_override = Inr [] \<and>
   extract_leaflets_from_page urljoin clock (Some []) shop_override = Inr [] \<and>
   extract_leaflets_from_page urljoin clock (Some els) shop_override =
     Inr (List.map_filter
            (\<lambda>(i, el). case parse urljoin BASE_URL (clock i) (Tag el) shop_override of
                          Inl e \<Rightarrow> None | Inr r \<Rightarrow> r)
            (zip [1..<Suc (length els)] els))"
  by (simp add: extract_leaflets_from_page_def extract_loop_eq List.map_filter_simps)

theorem extract_leaflets_from_page_collects_witness:
  "extract_leaflets_from_page urljoin_rooted example_clock (Some example_page) None =
   Inr [example_leaflet, example_leaflet\<lparr>title := ''Zweite''\<rparr>]"
proof -
  from extract_leaflets_from_page_collects [of urljoin_rooted example_clock None example_page]
  have "extract_leaflets_from_page urljoin_rooted example_clock (Some example_page) None =
     Inr (List.map_filter
            (\<lambda>(i, el). case parse urljoin_rooted BASE_URL (example_clock i) (Tag el) None of
                          Inl e \<Rightarrow> None | Inr r \<Rightarrow> r)
            (zip [1..<Suc (length example_page)] example_page))"
    by blast
  then show ?thesis
    unfolding example_page_indexed
    by (simp add: List.map_filter_simps example_clock_def
          parse_example parse_example_no_shop parse_example_second)
qed

end
